theory Spec2Isabelle
  imports Complex_Main
begin

section \<open>JavaScript values, errors and the platform\<close>

text \<open>
  Values as the TypeScript code handles them: what a JSON body parses to, plus
  \<open>undefined\<close> and (for a property found on \<open>Object.prototype\<close>) a built-in
  function. A number is its mathematical value; \<open>NaN\<close> and the infinities cannot
  arrive in a JSON body and are left out. An object is the list of its own
  properties, read with \<open>map_of\<close>.
\<close>

datatype jsval =
    JUndefined
  | JNull
  | JBool bool
  | JNum real
  | JStr string
  | JArr "jsval list"
  | JObj "(string \<times> jsval) list"
  | JFunction string

datatype js_error =
    Error string
  | TypeError string
  | AxiosError string

fun message :: "js_error \<Rightarrow> string" where
  "message (Error m) = m"
| "message (TypeError m) = m"
| "message (AxiosError m) = m"

text \<open>\<open>process.env\<close>: each variable is a string or \<open>undefined\<close>.\<close>

record env =
  CONTEXT7_API_KEY :: "string option"
  PERPLEXITY_API_KEY :: "string option"
  BRIGHTDATA_API_TOKEN :: "string option"

text \<open>\<open>!apiKey\<close> on a \<open>string | undefined\<close>: true for \<open>undefined\<close> and for the empty string.\<close>

definition js_not :: "string option \<Rightarrow> bool" where
  "js_not v = (case v of None \<Rightarrow> True | Some s \<Rightarrow> s = [])"

text \<open>A \<open>string | undefined\<close> inside a template literal.\<close>

definition template :: "string option \<Rightarrow> string" where
  "template v = (case v of None \<Rightarrow> ''undefined'' | Some s \<Rightarrow> s)"

text \<open>Truthiness, and \<open>a || b\<close>.\<close>

fun truthy :: "jsval \<Rightarrow> bool" where
  "truthy JUndefined = False"
| "truthy JNull = False"
| "truthy (JBool b) = b"
| "truthy (JNum n) = (n \<noteq> 0)"
| "truthy (JStr s) = (s \<noteq> [])"
| "truthy (JArr xs) = True"
| "truthy (JObj kvs) = True"
| "truthy (JFunction f) = True"

definition js_or :: "jsval \<Rightarrow> jsval \<Rightarrow> jsval" where
  "js_or a b = (if truthy a then a else b)"

text \<open>
  Property reads \<open>v.k\<close> and \<open>v[0]\<close>, for the keys the program reads
  (\<open>choices\<close>, \<open>message\<close>, \<open>content\<close>, the argument names), none of which is
  inherited from a built-in prototype. Reading a property of \<open>undefined\<close> or
  \<open>null\<close> throws a \<open>TypeError\<close> with the message of the Node runtime.
\<close>

definition cannot_read :: "string \<Rightarrow> string \<Rightarrow> js_error" where
  "cannot_read what k =
     TypeError (''Cannot read properties of '' @ what @ '' (reading '' @ [CHR 0x27] @ k @ [CHR 0x27] @ '')'')"

fun get_prop :: "jsval \<Rightarrow> string \<Rightarrow> js_error + jsval" where
  "get_prop JUndefined k = Inl (cannot_read ''undefined'' k)"
| "get_prop JNull k = Inl (cannot_read ''null'' k)"
| "get_prop (JObj kvs) k = Inr (case map_of kvs k of Some v \<Rightarrow> v | None \<Rightarrow> JUndefined)"
| "get_prop v k = Inr JUndefined"

fun get_index0 :: "jsval \<Rightarrow> js_error + jsval" where
  "get_index0 JUndefined = Inl (cannot_read ''undefined'' ''0'')"
| "get_index0 JNull = Inl (cannot_read ''null'' ''0'')"
| "get_index0 (JArr xs) = Inr (case xs of [] \<Rightarrow> JUndefined | x # _ \<Rightarrow> x)"
| "get_index0 (JStr s) = Inr (case s of [] \<Rightarrow> JUndefined | c # _ \<Rightarrow> JStr [c])"
| "get_index0 (JObj kvs) = Inr (case map_of kvs ''0'' of Some v \<Rightarrow> v | None \<Rightarrow> JUndefined)"
| "get_index0 v = Inr JUndefined"

text \<open>
  An outbound \<open>axios.post(url, data, {headers})\<close>, and the platform the program
  runs on: the upstream's answer to a request (the response's \<open>data\<close>, or the
  error \<open>axios\<close> rejects with), \<open>JSON.stringify(value, null, indent)\<close>, and the
  URL format test of the schema library.
\<close>

record http_request =
  req_url :: string
  req_data :: jsval
  req_headers :: "(string \<times> string) list"

record platform =
  axios_post :: "http_request \<Rightarrow> js_error + jsval"
  JSON_stringify :: "jsval \<Rightarrow> nat \<Rightarrow> string"
  valid_url :: "string \<Rightarrow> bool"

text \<open>
  An asynchronous computation that may throw: the upstream requests it issued,
  in order, and either the error thrown or the value returned.
\<close>

type_synonym 'a io = "http_request list \<times> (js_error + 'a)"

section \<open>Tool results\<close>

text \<open>
  A content entry \<open>{type: 'text', text: v}\<close>, where \<open>v\<close> is whatever value the
  code puts there, and a tool result; a result object written without
  \<open>structuredContent\<close> or without \<open>isError\<close> has \<open>None\<close>, respectively \<open>False\<close>.
\<close>

datatype content_item = TextContent jsval

record tool_result =
  content :: "content_item list"
  structuredContent :: "jsval option"
  isError :: bool

text \<open>The return statement shared by the unified server's callbacks.\<close>

definition success :: "platform \<Rightarrow> nat \<Rightarrow> jsval \<Rightarrow> tool_result" where
  "success w indent output =
     \<lparr>content = [TextContent (JStr (JSON_stringify w output indent))],
      structuredContent = Some output,
      isError = False\<rparr>"

section \<open>The unified server: tool callbacks\<close>

datatype engine = Google | Bing | Yandex

fun engine_str :: "engine \<Rightarrow> string" where
  "engine_str Google = ''google''"
| "engine_str Bing = ''bing''"
| "engine_str Yandex = ''yandex''"

text \<open>\<open>engine || 'google'\<close> on the validated, optional enum.\<close>

definition engine_or_google :: "engine option \<Rightarrow> string" where
  "engine_or_google e = (case e of None \<Rightarrow> ''google'' | Some g \<Rightarrow> engine_str g)"

definition opt_str :: "string option \<Rightarrow> jsval" where
  "opt_str v = (case v of None \<Rightarrow> JUndefined | Some s \<Rightarrow> JStr s)"

definition opt_num :: "real option \<Rightarrow> jsval" where
  "opt_num v = (case v of None \<Rightarrow> JUndefined | Some n \<Rightarrow> JNum n)"

definition bearer :: "string option \<Rightarrow> (string \<times> string) list" where
  "bearer apiKey = [(''Authorization'', ''Bearer '' @ template apiKey)]"

definition resolve_library_id_callback :: "platform \<Rightarrow> env \<Rightarrow> string \<Rightarrow> tool_result io" where
  "resolve_library_id_callback w e libraryName =
     (let apiKey = CONTEXT7_API_KEY e in
      if js_not apiKey then ([], Inl (Error ''CONTEXT7_API_KEY not configured''))
      else
        let req = \<lparr>req_url = ''https://context7.upstash.io/api/v1/search'',
                   req_data = JObj [(''query'', JStr libraryName)],
                   req_headers = bearer apiKey\<rparr>
        in case axios_post w req of
             Inl err \<Rightarrow> ([req], Inl err)
           | Inr response_data \<Rightarrow>
               ([req], Inr (success w 2 (JObj [(''libraries'', response_data)]))))"

definition get_library_docs_callback ::
  "platform \<Rightarrow> env \<Rightarrow> string \<Rightarrow> string option \<Rightarrow> real option \<Rightarrow> tool_result io" where
  "get_library_docs_callback w e context7CompatibleLibraryID topic tokens =
     (let apiKey = CONTEXT7_API_KEY e in
      if js_not apiKey then ([], Inl (Error ''CONTEXT7_API_KEY not configured''))
      else
        let req = \<lparr>req_url = ''https://context7.upstash.io/api/v1/docs'',
                   req_data = JObj [(''libraryId'', JStr context7CompatibleLibraryID),
                                    (''topic'', opt_str topic),
                                    (''maxTokens'', js_or (opt_num tokens) (JNum 5000))],
                   req_headers = bearer apiKey\<rparr>
        in case axios_post w req of
             Inl err \<Rightarrow> ([req], Inl err)
           | Inr response_data \<Rightarrow>
               ([req], Inr (success w 2 (JObj [(''documentation'', response_data)]))))"

text \<open>\<open>response.data.choices[0].message.content\<close>.\<close>

definition choices0_message_content :: "jsval \<Rightarrow> js_error + jsval" where
  "choices0_message_content response_data =
     (case get_prop response_data ''choices'' of
        Inl err \<Rightarrow> Inl err
      | Inr choices \<Rightarrow>
          (case get_index0 choices of
             Inl err \<Rightarrow> Inl err
           | Inr choice \<Rightarrow>
               (case get_prop choice ''message'' of
                  Inl err \<Rightarrow> Inl err
                | Inr msg \<Rightarrow> get_prop msg ''content'')))"

definition perplexity_headers :: "string option \<Rightarrow> (string \<times> string) list" where
  "perplexity_headers apiKey =
     [(''Authorization'', ''Bearer '' @ template apiKey), (''Content-Type'', ''application/json'')]"

definition perplexity_request :: "string option \<Rightarrow> jsval \<Rightarrow> jsval \<Rightarrow> http_request" where
  "perplexity_request apiKey model query =
     \<lparr>req_url = ''https://api.perplexity.ai/chat/completions'',
      req_data = JObj [(''model'', model),
                       (''messages'', JArr [JObj [(''role'', JStr ''user''), (''content'', query)]])],
      req_headers = perplexity_headers apiKey\<rparr>"

text \<open>The callback registered for each entry of \<open>perplexityModels\<close>; \<open>model\<close> is the
  variable the closure captures.\<close>

definition perplexity_callback :: "string \<Rightarrow> platform \<Rightarrow> env \<Rightarrow> string \<Rightarrow> tool_result io" where
  "perplexity_callback model w e query =
     (let apiKey = PERPLEXITY_API_KEY e in
      if js_not apiKey then ([], Inl (Error ''PERPLEXITY_API_KEY not configured''))
      else
        let req = perplexity_request apiKey (JStr model) (JStr query)
        in case axios_post w req of
             Inl err \<Rightarrow> ([req], Inl err)
           | Inr response_data \<Rightarrow>
               (case choices0_message_content response_data of
                  Inl err \<Rightarrow> ([req], Inl err)
                | Inr c \<Rightarrow> ([req], Inr (success w 0 (JObj [(''response'', c)])))))"

definition search_engine_callback ::
  "platform \<Rightarrow> env \<Rightarrow> string \<Rightarrow> engine option \<Rightarrow> tool_result io" where
  "search_engine_callback w e query engine =
     (let apiToken = BRIGHTDATA_API_TOKEN e in
      if js_not apiToken then ([], Inl (Error ''BRIGHTDATA_API_TOKEN not configured''))
      else
        ([], Inr (success w 0
           (JObj [(''results'',
                   JArr [JStr (''Searched '' @ engine_or_google engine @ '' for: '' @ query)])]))))"

definition scrape_as_markdown_callback :: "platform \<Rightarrow> env \<Rightarrow> string \<Rightarrow> tool_result io" where
  "scrape_as_markdown_callback w e url =
     (let apiToken = BRIGHTDATA_API_TOKEN e in
      if js_not apiToken then ([], Inl (Error ''BRIGHTDATA_API_TOKEN not configured''))
      else
        ([], Inr (success w 0 (JObj [(''markdown'', JStr (''Scraped content from '' @ url))]))))"

definition scrape_batch_callback :: "platform \<Rightarrow> env \<Rightarrow> string list \<Rightarrow> tool_result io" where
  "scrape_batch_callback w e urls =
     (let apiToken = BRIGHTDATA_API_TOKEN e in
      if js_not apiToken then ([], Inl (Error ''BRIGHTDATA_API_TOKEN not configured''))
      else
        ([], Inr (success w 0
           (JObj [(''results'',
                   JArr (map (\<lambda>url. JObj [(''url'', JStr url), (''status'', JStr ''scraped'')]) urls))]))))"

definition search_engine_batch_callback ::
  "platform \<Rightarrow> env \<Rightarrow> (string \<times> engine option) list \<Rightarrow> tool_result io" where
  "search_engine_batch_callback w e queries =
     (let apiToken = BRIGHTDATA_API_TOKEN e in
      if js_not apiToken then ([], Inl (Error ''BRIGHTDATA_API_TOKEN not configured''))
      else
        ([], Inr (success w 0
           (JObj [(''results'',
                   JArr (map (\<lambda>(query, engine).
                                 JObj [(''query'', JStr query),
                                       (''engine'', JStr (engine_or_google engine))]) queries))]))))"

text \<open>
  One call of a registered callback with its validated, typed arguments; for a
  research tool the first component is the model its closure captured.
\<close>

datatype invocation =
    ResolveLibraryId string
  | GetLibraryDocs string "string option" "real option"
  | PerplexityQuery string string
  | SearchEngine string "engine option"
  | ScrapeAsMarkdown string
  | ScrapeBatch "string list"
  | SearchEngineBatch "(string \<times> engine option) list"

fun run :: "platform \<Rightarrow> env \<Rightarrow> invocation \<Rightarrow> tool_result io" where
  "run w e (ResolveLibraryId libraryName) = resolve_library_id_callback w e libraryName"
| "run w e (GetLibraryDocs libraryID topic tokens) = get_library_docs_callback w e libraryID topic tokens"
| "run w e (PerplexityQuery model query) = perplexity_callback model w e query"
| "run w e (SearchEngine query engine) = search_engine_callback w e query engine"
| "run w e (ScrapeAsMarkdown url) = scrape_as_markdown_callback w e url"
| "run w e (ScrapeBatch urls) = scrape_batch_callback w e urls"
| "run w e (SearchEngineBatch queries) = search_engine_batch_callback w e queries"

text \<open>The three provider groups, and the credential each group's callbacks read.\<close>

datatype provider = Context7 | Perplexity | BrightData

fun credential :: "env \<Rightarrow> provider \<Rightarrow> string option" where
  "credential e Context7 = CONTEXT7_API_KEY e"
| "credential e Perplexity = PERPLEXITY_API_KEY e"
| "credential e BrightData = BRIGHTDATA_API_TOKEN e"

fun credential_name :: "provider \<Rightarrow> string" where
  "credential_name Context7 = ''CONTEXT7_API_KEY''"
| "credential_name Perplexity = ''PERPLEXITY_API_KEY''"
| "credential_name BrightData = ''BRIGHTDATA_API_TOKEN''"

fun provider_of :: "invocation \<Rightarrow> provider" where
  "provider_of (ResolveLibraryId _) = Context7"
| "provider_of (GetLibraryDocs _ _ _) = Context7"
| "provider_of (PerplexityQuery _ _) = Perplexity"
| "provider_of (SearchEngine _ _) = BrightData"
| "provider_of (ScrapeAsMarkdown _) = BrightData"
| "provider_of (ScrapeBatch _) = BrightData"
| "provider_of (SearchEngineBatch _) = BrightData"

section \<open>The unified server: schemas and registration\<close>

text \<open>
  The schema expressions of the source: \<open>z.string()\<close>, \<open>z.number()\<close>, \<open>z.any()\<close>,
  \<open>z.enum([...])\<close>, \<open>z.array(s)\<close>, \<open>z.object({...})\<close>, and the chained
  \<open>.url()\<close>, \<open>.max(n)\<close>, \<open>.optional()\<close>, \<open>.describe(text)\<close>.
\<close>

datatype zod =
    ZString
  | ZNumber
  | ZAny
  | ZEnum "string list"
  | ZArray zod
  | ZObject "(string \<times> zod) list"
  | ZUrl zod
  | ZMax zod nat
  | ZOptional zod
  | ZDescribe zod string

record tool_config =
  title :: string
  description :: string
  inputSchema :: "(string \<times> zod) list"
  outputSchema :: "(string \<times> zod) list"

text \<open>The callbacks as closures: a research callback carries its \<open>model\<close>.\<close>

datatype callback =
    ResolveLibraryIdCb
  | GetLibraryDocsCb
  | PerplexityCb string
  | SearchEngineCb
  | ScrapeAsMarkdownCb
  | ScrapeBatchCb
  | SearchEngineBatchCb

record registered_tool =
  tool_name :: string
  config :: tool_config
  cb :: callback

definition registerTool ::
  "registered_tool list \<Rightarrow> string \<Rightarrow> tool_config \<Rightarrow> callback \<Rightarrow> registered_tool list" where
  "registerTool server n c f = server @ [\<lparr>tool_name = n, config = c, cb = f\<rparr>]"

definition perplexityModels :: "(string \<times> string) list" where
  "perplexityModels =
     [(''perplexity_search'', ''sonar''),
      (''perplexity_ask'', ''sonar-pro''),
      (''perplexity_research'', ''sonar-deep-research''),
      (''perplexity_reason'', ''sonar-reasoning-pro'')]"

text \<open>
  String helpers used for the research titles: \<open>s.replace(pattern, replacement)\<close>
  with a string pattern (the first occurrence only; the replacements used contain
  no \<open>$\<close>), \<open>s.replace(/([A-Z])/g, ' $1')\<close> and \<open>s.trim()\<close>.
\<close>

fun replace_first :: "string \<Rightarrow> string \<Rightarrow> string \<Rightarrow> string" where
  "replace_first pat rep [] = (if pat = [] then rep else [])"
| "replace_first pat rep (c # cs) =
     (if take (length pat) (c # cs) = pat then rep @ drop (length pat) (c # cs)
      else c # replace_first pat rep cs)"

definition is_upper :: "char \<Rightarrow> bool" where
  "is_upper c = ((65::nat) \<le> of_char c \<and> of_char c \<le> (90::nat))"

definition space_before_upper :: "string \<Rightarrow> string" where
  "space_before_upper s = concat (map (\<lambda>c. if is_upper c then [CHR '' '', c] else [c]) s)"

definition is_space :: "char \<Rightarrow> bool" where
  "is_space c = (c = CHR '' '' \<or> c = CHR 0x09 \<or> c = CHR 0x0A \<or> c = CHR 0x0B \<or> c = CHR 0x0C \<or> c = CHR 0x0D)"

definition trim :: "string \<Rightarrow> string" where
  "trim s = rev (dropWhile is_space (rev (dropWhile is_space s)))"

definition perplexity_config :: "string \<Rightarrow> string \<Rightarrow> tool_config" where
  "perplexity_config toolName model =
     \<lparr>title = trim (space_before_upper (replace_first ''perplexity_'' ''Perplexity '' toolName)),
      description = replace_first ''perplexity_'' [] toolName @ '' using '' @ model @ '' model'',
      inputSchema = [(''query'', ZDescribe ZString ''Query or question'')],
      outputSchema = [(''response'', ZString)]\<rparr>"

definition engines :: "string list" where
  "engines = [''google'', ''bing'', ''yandex'']"

definition register_context7 :: "registered_tool list \<Rightarrow> registered_tool list" where
  "register_context7 server =
     (let s1 = registerTool server ''mcp__context7__resolve-library-id''
                 \<lparr>title = ''Resolve Library ID'',
                  description = ''Resolve a library name to a Context7-compatible library ID'',
                  inputSchema = [(''libraryName'', ZDescribe ZString ''Library name to search for'')],
                  outputSchema = [(''libraries'', ZArray ZAny)]\<rparr>
                 ResolveLibraryIdCb
      in registerTool s1 ''mcp__context7__get-library-docs''
                 \<lparr>title = ''Get Library Documentation'',
                  description = ''Fetch documentation for a library using Context7'',
                  inputSchema =
                    [(''context7CompatibleLibraryID'',
                        ZDescribe ZString ''Context7 library ID (e.g., /org/project)''),
                     (''topic'', ZDescribe (ZOptional ZString) ''Optional topic to focus on''),
                     (''tokens'', ZDescribe (ZOptional ZNumber) ''Max tokens (default: 5000)'')],
                  outputSchema = [(''documentation'', ZAny)]\<rparr>
                 GetLibraryDocsCb)"

definition register_perplexity :: "registered_tool list \<Rightarrow> registered_tool list" where
  "register_perplexity server =
     fold (\<lambda>(toolName, model) s.
             registerTool s toolName (perplexity_config toolName model) (PerplexityCb model))
          perplexityModels server"

definition register_brightdata :: "registered_tool list \<Rightarrow> registered_tool list" where
  "register_brightdata server =
     (let s1 = registerTool server ''mcp__brightdata__search_engine''
                 \<lparr>title = ''BrightData Search Engine'',
                  description = ''Search engine SERP results (Google/Bing/Yandex)'',
                  inputSchema = [(''query'', ZString), (''engine'', ZOptional (ZEnum engines))],
                  outputSchema = [(''results'', ZArray ZAny)]\<rparr>
                 SearchEngineCb;
          s2 = registerTool s1 ''mcp__brightdata__scrape_as_markdown''
                 \<lparr>title = ''BrightData Scrape as Markdown'',
                  description = ''Scrape webpage and convert to markdown'',
                  inputSchema = [(''url'', ZUrl ZString)],
                  outputSchema = [(''markdown'', ZString)]\<rparr>
                 ScrapeAsMarkdownCb;
          s3 = registerTool s2 ''mcp__brightdata__scrape_batch''
                 \<lparr>title = ''BrightData Batch Scrape'',
                  description = ''Scrape multiple URLs'',
                  inputSchema = [(''urls'', ZMax (ZArray (ZUrl ZString)) 10)],
                  outputSchema = [(''results'', ZArray ZAny)]\<rparr>
                 ScrapeBatchCb
      in registerTool s3 ''mcp__brightdata__search_engine_batch''
                 \<lparr>title = ''BrightData Batch Search'',
                  description = ''Batch search engine queries'',
                  inputSchema =
                    [(''queries'',
                        ZMax (ZArray (ZObject [(''query'', ZString),
                                               (''engine'', ZOptional (ZEnum engines))])) 10)],
                  outputSchema = [(''results'', ZArray ZAny)]\<rparr>
                 SearchEngineBatchCb)"

text \<open>
  The server the \<open>/mcp\<close> route builds on every request: a new, empty server and
  the registrations in source order. Neither the request nor the environment is
  read while it is built.
\<close>

definition mcp_server :: "registered_tool list" where
  "mcp_server = register_brightdata (register_perplexity (register_context7 []))"

definition find_tool :: "registered_tool list \<Rightarrow> string \<Rightarrow> registered_tool option" where
  "find_tool server n = find (\<lambda>t. tool_name t = n) server"

fun group_of :: "callback \<Rightarrow> provider" where
  "group_of ResolveLibraryIdCb = Context7"
| "group_of GetLibraryDocsCb = Context7"
| "group_of (PerplexityCb _) = Perplexity"
| "group_of SearchEngineCb = BrightData"
| "group_of ScrapeAsMarkdownCb = BrightData"
| "group_of ScrapeBatchCb = BrightData"
| "group_of SearchEngineBatchCb = BrightData"

section \<open>The per-provider servers of server.ts\<close>

text \<open>
  Each route builds a low-level server with its own \<open>CallToolRequestSchema\<close>
  handler. The handler receives the tool name and the unvalidated
  \<open>request.params.arguments\<close> (an object, or \<open>undefined\<close>), runs its body inside
  \<open>try\<close>, and its \<open>catch\<close> block turns every error into a result.
\<close>

definition text_result :: "jsval \<Rightarrow> tool_result" where
  "text_result v = \<lparr>content = [TextContent v], structuredContent = None, isError = False\<rparr>"

definition catch_block :: "js_error \<Rightarrow> tool_result" where
  "catch_block err =
     \<lparr>content = [TextContent (JStr (''Error: '' @ message err))],
      structuredContent = None,
      isError = True\<rparr>"

definition try_catch :: "tool_result io \<Rightarrow> tool_result io" where
  "try_catch body =
     (case body of
        (reqs, Inl err) \<Rightarrow> (reqs, Inr (catch_block err))
      | (reqs, Inr r) \<Rightarrow> (reqs, Inr r))"

definition context7_try :: "platform \<Rightarrow> env \<Rightarrow> string \<Rightarrow> jsval \<Rightarrow> tool_result io" where
  "context7_try w e n args =
     (let apiKey = CONTEXT7_API_KEY e in
      if js_not apiKey then ([], Inl (Error ''CONTEXT7_API_KEY not configured''))
      else if n = ''mcp__context7__resolve-library-id'' then
        (case get_prop args ''libraryName'' of
           Inl err \<Rightarrow> ([], Inl err)
         | Inr libraryName \<Rightarrow>
             let req = \<lparr>req_url = ''https://context7.upstash.io/api/v1/search'',
                        req_data = JObj [(''query'', libraryName)],
                        req_headers = bearer apiKey\<rparr>
             in (case axios_post w req of
                   Inl err \<Rightarrow> ([req], Inl err)
                 | Inr response_data \<Rightarrow>
                     ([req], Inr (text_result (JStr (JSON_stringify w response_data 2))))))
      else if n = ''mcp__context7__get-library-docs'' then
        (case get_prop args ''context7CompatibleLibraryID'' of
           Inl err \<Rightarrow> ([], Inl err)
         | Inr libraryId \<Rightarrow>
             (case get_prop args ''topic'' of
                Inl err \<Rightarrow> ([], Inl err)
              | Inr topic \<Rightarrow>
                  (case get_prop args ''tokens'' of
                     Inl err \<Rightarrow> ([], Inl err)
                   | Inr tokens \<Rightarrow>
                       let req = \<lparr>req_url = ''https://context7.upstash.io/api/v1/docs'',
                                  req_data = JObj [(''libraryId'', libraryId),
                                                   (''topic'', topic),
                                                   (''maxTokens'', js_or tokens (JNum 5000))],
                                  req_headers = bearer apiKey\<rparr>
                       in (case axios_post w req of
                             Inl err \<Rightarrow> ([req], Inl err)
                           | Inr response_data \<Rightarrow>
                               ([req], Inr (text_result (JStr (JSON_stringify w response_data 2))))))))
      else ([], Inl (Error (''Unknown tool: '' @ n))))"

definition context7_call_tool :: "platform \<Rightarrow> env \<Rightarrow> string \<Rightarrow> jsval \<Rightarrow> tool_result io" where
  "context7_call_tool w e n args = try_catch (context7_try w e n args)"

definition modelMap :: "(string \<times> string) list" where
  "modelMap =
     [(''perplexity_search'', ''sonar''),
      (''perplexity_ask'', ''sonar-pro''),
      (''perplexity_research'', ''sonar-deep-research''),
      (''perplexity_reason'', ''sonar-reasoning-pro'')]"

text \<open>
  \<open>modelMap[name]\<close>: \<open>modelMap\<close> is an object literal, so a name that is not one
  of its keys still finds what \<open>Object.prototype\<close> defines under that name: a
  built-in function, or for \<open>__proto__\<close> the prototype object itself (which has
  no enumerable property).
\<close>

definition object_prototype_functions :: "string list" where
  "object_prototype_functions =
     [''constructor'', ''__defineGetter__'', ''__defineSetter__'', ''hasOwnProperty'',
      ''__lookupGetter__'', ''__lookupSetter__'', ''isPrototypeOf'', ''propertyIsEnumerable'',
      ''toString'', ''valueOf'', ''toLocaleString'']"

definition modelMap_get :: "string \<Rightarrow> jsval" where
  "modelMap_get n =
     (case map_of modelMap n of
        Some model \<Rightarrow> JStr model
      | None \<Rightarrow>
          if n = ''__proto__'' then JObj []
          else if n \<in> set object_prototype_functions then JFunction n
          else JUndefined)"

definition perplexity_try :: "platform \<Rightarrow> env \<Rightarrow> string \<Rightarrow> jsval \<Rightarrow> tool_result io" where
  "perplexity_try w e n args =
     (let apiKey = PERPLEXITY_API_KEY e in
      if js_not apiKey then ([], Inl (Error ''PERPLEXITY_API_KEY not configured''))
      else
        let model = modelMap_get n in
        if \<not> truthy model then ([], Inl (Error (''Unknown tool: '' @ n)))
        else
          (case get_prop args ''query'' of
             Inl err \<Rightarrow> ([], Inl err)
           | Inr query \<Rightarrow>
               let req = perplexity_request apiKey model query
               in (case axios_post w req of
                     Inl err \<Rightarrow> ([req], Inl err)
                   | Inr response_data \<Rightarrow>
                       (case choices0_message_content response_data of
                          Inl err \<Rightarrow> ([req], Inl err)
                        | Inr c \<Rightarrow> ([req], Inr (text_result c))))))"

definition perplexity_call_tool :: "platform \<Rightarrow> env \<Rightarrow> string \<Rightarrow> jsval \<Rightarrow> tool_result io" where
  "perplexity_call_tool w e n args = try_catch (perplexity_try w e n args)"

text \<open>\<open>${JSON.stringify(args)}\<close>: \<open>JSON.stringify(undefined)\<close> is \<open>undefined\<close>.\<close>

definition stringify_in_template :: "platform \<Rightarrow> jsval \<Rightarrow> string" where
  "stringify_in_template w v =
     (case v of
        JUndefined \<Rightarrow> ''undefined''
      | JFunction f \<Rightarrow> ''undefined''
      | _ \<Rightarrow> JSON_stringify w v 0)"

definition brightdata_try :: "platform \<Rightarrow> env \<Rightarrow> string \<Rightarrow> jsval \<Rightarrow> tool_result io" where
  "brightdata_try w e n args =
     (let apiToken = BRIGHTDATA_API_TOKEN e in
      if js_not apiToken then ([], Inl (Error ''BRIGHTDATA_API_TOKEN not configured''))
      else
        ([], Inr (text_result
           (JStr (''BrightData tool '' @ n @ '' would be called with: '' @ stringify_in_template w args)))))"

definition brightdata_call_tool :: "platform \<Rightarrow> env \<Rightarrow> string \<Rightarrow> jsval \<Rightarrow> tool_result io" where
  "brightdata_call_tool w e n args = try_catch (brightdata_try w e n args)"

text \<open>
  The answer to a \<open>tools/call\<close> request: a result, or a top-level protocol error
  with its classification.
\<close>

datatype error_code = MethodNotFound | InvalidParams | InternalError

datatype response =
    Result tool_result
  | ProtocolError error_code

text \<open>
  Modelled from the spec: the reading of the protocol envelope by the SDK's
  low-level \<open>Server\<close>, which the source imports and whose code is not part of
  it. The argument mapping of an invocation envelope is an object, or is
  absent; a malformed envelope is a protocol error.
\<close>

fun envelope_ok :: "jsval \<Rightarrow> bool" where
  "envelope_ok JUndefined = True"
| "envelope_ok (JObj kvs) = True"
| "envelope_ok v = False"


fun sse_handler :: "provider \<Rightarrow> platform \<Rightarrow> env \<Rightarrow> string \<Rightarrow> jsval \<Rightarrow> tool_result io" where
  "sse_handler Context7 = context7_call_tool"
| "sse_handler Perplexity = perplexity_call_tool"
| "sse_handler BrightData = brightdata_call_tool"

text \<open>
  Modelled from the spec: what a per-provider route answers to a \<open>tools/call\<close>
  request, the route's handler being run by the SDK's low-level \<open>Server\<close>, not
  part of the source. A malformed envelope is answered with a protocol error of
  the generic internal-error classification before the handler runs; a handler
  that returns answers with its result; an error that leaves the handler is
  answered with a protocol error of the internal-error classification.
\<close>

definition sse_call_tool ::
  "provider \<Rightarrow> platform \<Rightarrow> env \<Rightarrow> string \<Rightarrow> jsval \<Rightarrow> http_request list \<times> response" where
  "sse_call_tool p w e n args =
     (if \<not> envelope_ok args then ([], ProtocolError InternalError)
      else
        (case sse_handler p w e n args of
           (reqs, Inl err) \<Rightarrow> (reqs, ProtocolError InternalError)
         | (reqs, Inr r) \<Rightarrow> (reqs, Result r)))"

fun is_protocol_error :: "response \<Rightarrow> bool" where
  "is_protocol_error (ProtocolError c) = True"
| "is_protocol_error (Result r) = False"

section \<open>The unified server: dispatch of one invocation\<close>

text \<open>
  Modelled from the spec: the validation of a value against a schema, done by
  the schema library (\<open>zod\<close>), which the source imports and whose code is not
  part of it. A value is accepted when it has the semantic type of the schema
  and meets its constraints (enumerated values, array length bound, string
  format); an optional schema also accepts a missing value; an object schema
  checks each declared field.
\<close>

fun zod_accepts :: "(string \<Rightarrow> bool) \<Rightarrow> zod \<Rightarrow> jsval \<Rightarrow> bool" where
  "zod_accepts u ZString v = (case v of JStr s \<Rightarrow> True | _ \<Rightarrow> False)"
| "zod_accepts u ZNumber v = (case v of JNum n \<Rightarrow> True | _ \<Rightarrow> False)"
| "zod_accepts u ZAny v = True"
| "zod_accepts u (ZEnum vs) v = (case v of JStr s \<Rightarrow> s \<in> set vs | _ \<Rightarrow> False)"
| "zod_accepts u (ZArray s) v =
     (case v of JArr xs \<Rightarrow> (\<forall>x \<in> set xs. zod_accepts u s x) | _ \<Rightarrow> False)"
| "zod_accepts u (ZObject shape) v =
     (case v of
        JObj kvs \<Rightarrow>
          (\<forall>f \<in> set shape.
             zod_accepts u (snd f) (case map_of kvs (fst f) of Some x \<Rightarrow> x | None \<Rightarrow> JUndefined))
      | _ \<Rightarrow> False)"
| "zod_accepts u (ZUrl s) v = (zod_accepts u s v \<and> (case v of JStr x \<Rightarrow> u x | _ \<Rightarrow> False))"
| "zod_accepts u (ZMax s n) v =
     (zod_accepts u s v \<and> (case v of JArr xs \<Rightarrow> length xs \<le> n | _ \<Rightarrow> False))"
| "zod_accepts u (ZOptional s) v = (v = JUndefined \<or> zod_accepts u s v)"
| "zod_accepts u (ZDescribe s d) v = zod_accepts u s v"

text \<open>
  Modelled from the spec: the hand-over of the validated argument mapping to the
  adapter, done by the SDK's \<open>McpServer\<close>, which the source imports and whose
  code is not part of it. The callback's parameter list \<open>({ libraryName })\<close>,
  \<open>({ query, engine })\<close>, ... receives the fields of the argument object at the
  types the schema gives them; \<open>None\<close> where the object does not have these
  types, which validation excludes.
\<close>

definition field :: "jsval \<Rightarrow> string \<Rightarrow> jsval" where
  "field args k = (case get_prop args k of Inr v \<Rightarrow> v | Inl err \<Rightarrow> JUndefined)"

fun as_string :: "jsval \<Rightarrow> string option" where
  "as_string (JStr s) = Some s"
| "as_string v = None"

fun as_opt_string :: "jsval \<Rightarrow> string option option" where
  "as_opt_string JUndefined = Some None"
| "as_opt_string (JStr s) = Some (Some s)"
| "as_opt_string v = None"

fun as_opt_number :: "jsval \<Rightarrow> real option option" where
  "as_opt_number JUndefined = Some None"
| "as_opt_number (JNum n) = Some (Some n)"
| "as_opt_number v = None"

fun as_opt_engine :: "jsval \<Rightarrow> engine option option" where
  "as_opt_engine JUndefined = Some None"
| "as_opt_engine (JStr s) =
     (if s = ''google'' then Some (Some Google)
      else if s = ''bing'' then Some (Some Bing)
      else if s = ''yandex'' then Some (Some Yandex)
      else None)"
| "as_opt_engine v = None"

fun as_strings :: "jsval \<Rightarrow> string list option" where
  "as_strings (JArr xs) = those (map as_string xs)"
| "as_strings v = None"

definition as_query :: "jsval \<Rightarrow> (string \<times> engine option) option" where
  "as_query q =
     (case (as_string (field q ''query''), as_opt_engine (field q ''engine'')) of
        (Some query, Some engine) \<Rightarrow> Some (query, engine)
      | _ \<Rightarrow> None)"

fun as_queries :: "jsval \<Rightarrow> (string \<times> engine option) list option" where
  "as_queries (JArr xs) = those (map as_query xs)"
| "as_queries v = None"

fun bind_args :: "callback \<Rightarrow> jsval \<Rightarrow> invocation option" where
  "bind_args ResolveLibraryIdCb args =
     map_option ResolveLibraryId (as_string (field args ''libraryName''))"
| "bind_args GetLibraryDocsCb args =
     (case (as_string (field args ''context7CompatibleLibraryID''),
            as_opt_string (field args ''topic''),
            as_opt_number (field args ''tokens'')) of
        (Some libraryID, Some topic, Some tokens) \<Rightarrow> Some (GetLibraryDocs libraryID topic tokens)
      | _ \<Rightarrow> None)"
| "bind_args (PerplexityCb model) args =
     map_option (PerplexityQuery model) (as_string (field args ''query''))"
| "bind_args SearchEngineCb args =
     (case (as_string (field args ''query''), as_opt_engine (field args ''engine'')) of
        (Some query, Some engine) \<Rightarrow> Some (SearchEngine query engine)
      | _ \<Rightarrow> None)"
| "bind_args ScrapeAsMarkdownCb args = map_option ScrapeAsMarkdown (as_string (field args ''url''))"
| "bind_args ScrapeBatchCb args = map_option ScrapeBatch (as_strings (field args ''urls''))"
| "bind_args SearchEngineBatchCb args =
     map_option SearchEngineBatch (as_queries (field args ''queries''))"

text \<open>What one dispatch did: the adapter it invoked, the upstream requests issued.\<close>

datatype event = AdapterInvoked string | UpstreamRequest http_request

text \<open>
  Modelled from the spec: steps 2 and 3 of the dispatch algorithm for a tool the
  lookup has found, done by the SDK's \<open>McpServer\<close>, which the source imports and
  whose code is not part of it. The argument mapping is validated against the
  tool's input schema, and a violation is an immediate failure with an "invalid
  params" classification, no adapter being invoked; otherwise the adapter is
  invoked, its result (once checked against the output schema, below) is the
  response, and an error it throws is returned as a successful response whose
  payload carries the message and is marked "is error".
\<close>

definition failure_marker :: "js_error \<Rightarrow> tool_result" where
  "failure_marker err =
     \<lparr>content = [TextContent (JStr (message err))], structuredContent = None, isError = True\<rparr>"

definition invalid_params :: "event list \<times> response" where
  "invalid_params = ([], ProtocolError InvalidParams)"

text \<open>
  Modelled from the spec: step 2 of the dispatch algorithm (validation of the
  argument mapping against the tool's input schema), done by the SDK's
  \<open>McpServer\<close>, not part of the source. The typed call handed to the adapter, or
  \<open>None\<close> for a violation.
\<close>

definition validate :: "platform \<Rightarrow> registered_tool \<Rightarrow> jsval \<Rightarrow> invocation option" where
  "validate w t args =
     (if zod_accepts (valid_url w) (ZObject (inputSchema (config t))) args
      then bind_args (cb t) args
      else None)"

text \<open>
  Modelled from the spec: a success payload is a typed object matching the
  tool's output schema (section 3). The check is done by the SDK's \<open>McpServer\<close>,
  to which the source hands each tool's \<open>outputSchema\<close>, and is not part of the
  source: a returned result that is not marked "is error" and whose structured
  object is missing, or is not accepted by the output schema, is not answered
  as a success but as a failure with the "invalid params" classification.
\<close>

definition check_output :: "platform \<Rightarrow> registered_tool \<Rightarrow> tool_result \<Rightarrow> response" where
  "check_output w t r =
     (if isError r then Result r
      else
        (case structuredContent r of
           None \<Rightarrow> ProtocolError InvalidParams
         | Some output \<Rightarrow>
             if zod_accepts (valid_url w) (ZObject (outputSchema (config t))) output
             then Result r
             else ProtocolError InvalidParams))"

text \<open>
  Modelled from the spec: steps 2 and 3 of the dispatch algorithm for one
  registered tool, done by the SDK's \<open>McpServer\<close>, not part of the source.
\<close>

definition call_registered ::
  "platform \<Rightarrow> env \<Rightarrow> registered_tool \<Rightarrow> jsval \<Rightarrow> event list \<times> response" where
  "call_registered w e t args =
     (case validate w t args of
        None \<Rightarrow> invalid_params
      | Some call \<Rightarrow>
          (case run w e call of
             (reqs, Inl err) \<Rightarrow>
               (AdapterInvoked (tool_name t) # map UpstreamRequest reqs, Result (failure_marker err))
           | (reqs, Inr r) \<Rightarrow>
               (AdapterInvoked (tool_name t) # map UpstreamRequest reqs, check_output w t r)))"

text \<open>
  Modelled from the spec: the dispatch algorithm for one \<open>tools/call\<close> request
  to the \<open>/mcp\<close> route, done by the SDK's \<open>McpServer\<close>, not part of the source.
  Step 1 looks the tool name up in the registry; an unknown name is an
  immediate failure with a "method not found" classification, nothing being
  invoked. Steps 2 and 3 follow for the tool found.
\<close>

definition mcp_call_tool ::
  "platform \<Rightarrow> env \<Rightarrow> string \<Rightarrow> jsval \<Rightarrow> event list \<times> response" where
  "mcp_call_tool w e n args =
     (case find_tool mcp_server n of
        None \<Rightarrow> ([], ProtocolError MethodNotFound)
      | Some t \<Rightarrow> call_registered w e t args)"

text \<open>
  Modelled from the spec: the typed call the dispatch hands to the adapter for a
  request that passes lookup and validation (\<open>None\<close> otherwise); part of the
  SDK's dispatch, not of the source.
\<close>

definition adapter_call :: "platform \<Rightarrow> string \<Rightarrow> jsval \<Rightarrow> invocation option" where
  "adapter_call w n args =
     (case find_tool mcp_server n of
        None \<Rightarrow> None
      | Some t \<Rightarrow> validate w t args)"

text \<open>A response that is a success: a result not marked "is error".\<close>

fun succeeded :: "response \<Rightarrow> bool" where
  "succeeded (Result r) = (\<not> isError r)"
| "succeeded (ProtocolError c) = False"





text \<open>The \<open>model\<close> and \<open>maxTokens\<close> fields of an outbound request body.\<close>

definition model_sent :: "http_request \<Rightarrow> jsval" where
  "model_sent r = field (req_data r) ''model''"

definition maxTokens_sent :: "http_request \<Rightarrow> jsval" where
  "maxTokens_sent r = field (req_data r) ''maxTokens''"

text \<open>The server built for a request: the request body and the environment are not read.\<close>

definition server_for_request :: "env \<Rightarrow> jsval \<Rightarrow> registered_tool list" where
  "server_for_request e body = mcp_server"

text \<open>The environment with one provider's credential unset.\<close>

fun clear_credential :: "env \<Rightarrow> provider \<Rightarrow> env" where
  "clear_credential e Context7 = e\<lparr>CONTEXT7_API_KEY := None\<rparr>"
| "clear_credential e Perplexity = e\<lparr>PERPLEXITY_API_KEY := None\<rparr>"
| "clear_credential e BrightData = e\<lparr>BRIGHTDATA_API_TOKEN := None\<rparr>"

section \<open>Sample platforms and environments\<close>

definition offline :: platform where
  "offline =
     \<lparr>axios_post = (\<lambda>r. Inl (AxiosError ''Network Error'')),
      JSON_stringify = (\<lambda>v n. ''{}''),
      valid_url = (\<lambda>s. take 8 s = ''https://'')\<rparr>"

definition answering :: "jsval \<Rightarrow> platform" where
  "answering d = offline\<lparr>axios_post := (\<lambda>r. Inr d)\<rparr>"

definition configured :: env where
  "configured =
     \<lparr>CONTEXT7_API_KEY = Some ''c7-key'',
      PERPLEXITY_API_KEY = Some ''pplx-key'',
      BRIGHTDATA_API_TOKEN = Some ''bd-token''\<rparr>"

definition unconfigured :: env where
  "unconfigured =
     \<lparr>CONTEXT7_API_KEY = None, PERPLEXITY_API_KEY = None, BRIGHTDATA_API_TOKEN = None\<rparr>"

section \<open>Basic facts\<close>

lemmas server_defs = mcp_server_def register_brightdata_def register_perplexity_def
  register_context7_def registerTool_def perplexityModels_def

lemmas callback_defs = resolve_library_id_callback_def get_library_docs_callback_def
  perplexity_callback_def search_engine_callback_def scrape_as_markdown_callback_def
  scrape_batch_callback_def search_engine_batch_callback_def

lemmas sse_defs = context7_call_tool_def perplexity_call_tool_def brightdata_call_tool_def
  context7_try_def perplexity_try_def brightdata_try_def try_catch_def

lemma run_missing_credential:
  "js_not (credential e (provider_of c)) \<Longrightarrow>
     run w e c = ([], Inl (Error (credential_name (provider_of c) @ '' not configured'')))"
  by (cases c) (simp_all add: callback_defs)









lemma call_registered_returned:
  "validate w t args = Some c \<Longrightarrow> snd (run w e c) = Inr r \<Longrightarrow>
     call_registered w e t args =
       (AdapterInvoked (tool_name t) # map UpstreamRequest (fst (run w e c)), check_output w t r)"
  by (cases "run w e c") (simp add: call_registered_def)

lemma find_tool_name: "find_tool server n = Some t \<Longrightarrow> tool_name t = n"
  by (auto simp add: find_tool_def find_Some_iff)


section \<open>Tool-level failures\<close>



text \<open>
  C2. With the provider group's credential unset (or empty), every callback of
  the unified server throws its "not configured" error at once: the list of
  upstream requests issued is empty, whatever the arguments and whatever the
  upstream would have answered.
\<close>

theorem missing_credential_short_circuits:
  "js_not (credential e (provider_of c)) \<Longrightarrow>
     fst (run w e c) = [] \<and>
     snd (run w e c) = Inl (Error (credential_name (provider_of c) @ '' not configured''))"
  using run_missing_credential [of e c w] by simp

theorem missing_credential_short_circuits_witness:
  "js_not (credential unconfigured (provider_of (ResolveLibraryId ''react''))) \<and>
   fst (run (answering (JArr [])) unconfigured (ResolveLibraryId ''react'')) = [] \<and>
   snd (run (answering (JArr [])) unconfigured (ResolveLibraryId ''react'')) =
     Inl (Error ''CONTEXT7_API_KEY not configured'')"
  using missing_credential_short_circuits
    [of unconfigured "ResolveLibraryId ''react''" "answering (JArr [])"]
  by (simp add: unconfigured_def js_not_def)

section \<open>Unknown tool names\<close>

lemma modelMap_get_unknown:
  "n \<notin> set (map fst modelMap) \<Longrightarrow> n \<noteq> ''__proto__'' \<Longrightarrow> n \<notin> set object_prototype_functions \<Longrightarrow>
     modelMap_get n = JUndefined"
  by (simp add: modelMap_get_def modelMap_def)

text \<open>
  A name inherited from \<open>Object.prototype\<close> passes the research handler's
  \<open>if (!model)\<close> test, and a request goes out.
\<close>

lemma prototype_name_reaches_upstream:
  "length (fst (sse_call_tool Perplexity (answering JNull) configured ''constructor'' (JObj []))) = 1"
  by (simp add: sse_call_tool_def sse_defs configured_def js_not_def modelMap_get_def modelMap_def
      object_prototype_functions_def answering_def offline_def choices0_message_content_def
      cannot_read_def)

lemma check_output_not_method_not_found:
  "check_output w t r \<noteq> ProtocolError MethodNotFound"
  by (simp add: check_output_def split: option.splits)

lemma registered_not_method_not_found:
  "snd (call_registered w e t args) \<noteq> ProtocolError MethodNotFound"
proof (cases "validate w t args")
  case None
  then show ?thesis
    by (simp add: call_registered_def invalid_params_def)
next
  case (Some c)
  then show ?thesis
    by (cases "run w e c")
       (simp add: call_registered_def check_output_not_method_not_found split: sum.splits)
qed

text \<open>
  C3, as stated, fails on the per-provider routes of server.ts: the
  documentation handler, with its credential set, answers the name
  \<open>no_such_tool\<close> (not one of the 10 registered names) with a success-shaped
  result marked "is error", not with a protocol-level error.
\<close>

theorem unknown_tool_counterexample:
  "''no_such_tool'' \<notin> set (map tool_name mcp_server) \<and>
   sse_call_tool Context7 offline configured ''no_such_tool'' (JObj []) =
     ([], Result \<lparr>content = [TextContent (JStr ''Error: Unknown tool: no_such_tool'')],
                  structuredContent = None, isError = True\<rparr>) \<and>
   \<not> is_protocol_error (snd (sse_call_tool Context7 offline configured ''no_such_tool'' (JObj []))) \<and>
   snd (sse_call_tool Context7 offline configured ''no_such_tool'' (JObj [])) \<noteq>
     ProtocolError MethodNotFound"
  by (simp add: server_defs sse_call_tool_def sse_defs catch_block_def configured_def js_not_def)

text \<open>
  C3, amended. On the unified route, every invocation request whose tool name is
  not one of the 10 registered names is answered with a protocol-level error
  with the "method not found" classification, and nothing happens for it: no
  adapter is invoked and no upstream request is issued; a registered name is
  never answered so. On the per-provider routes of server.ts an unknown name is
  a tool-level failure instead: for a well-formed request with the credential
  set, the documentation handler answers every name other than its two tools'
  with the result marked "is error" whose text is \<open>Error: Unknown tool: <name>\<close>,
  and so does the research handler for every name that is neither a key of
  \<open>modelMap\<close> nor a property name of \<open>Object.prototype\<close>; no upstream request is
  issued. The web-data handler does not look at the name.
\<close>

theorem unknown_tool_handling:
  "(n \<notin> set (map tool_name mcp_server) \<longrightarrow>
      mcp_call_tool w e n args = ([], ProtocolError MethodNotFound)) \<and>
   (n \<in> set (map tool_name mcp_server) \<longrightarrow>
      snd (mcp_call_tool w e n args) \<noteq> ProtocolError MethodNotFound) \<and>
   (envelope_ok args \<and> \<not> js_not (CONTEXT7_API_KEY e) \<and>
      n \<noteq> ''mcp__context7__resolve-library-id'' \<and> n \<noteq> ''mcp__context7__get-library-docs'' \<longrightarrow>
      sse_call_tool Context7 w e n args =
        ([], Result \<lparr>content = [TextContent (JStr (''Error: Unknown tool: '' @ n))],
                     structuredContent = None, isError = True\<rparr>)) \<and>
   (envelope_ok args \<and> \<not> js_not (PERPLEXITY_API_KEY e) \<and> n \<notin> set (map fst modelMap) \<and>
      n \<noteq> ''__proto__'' \<and> n \<notin> set object_prototype_functions \<longrightarrow>
      sse_call_tool Perplexity w e n args =
        ([], Result \<lparr>content = [TextContent (JStr (''Error: Unknown tool: '' @ n))],
                     structuredContent = None, isError = True\<rparr>)) \<and>
   (envelope_ok args \<and> \<not> js_not (BRIGHTDATA_API_TOKEN e) \<longrightarrow>
      sse_call_tool BrightData w e n args =
        ([], Result (text_result
           (JStr (''BrightData tool '' @ n @ '' would be called with: '' @ stringify_in_template w args)))))"
proof -
  have unknown: "mcp_call_tool w e n args = ([], ProtocolError MethodNotFound)"
    if "n \<notin> set (map tool_name mcp_server)"
  proof -
    have "find_tool mcp_server n = None"
      using that by (auto simp add: find_tool_def find_None_iff)
    then show ?thesis
      by (simp add: mcp_call_tool_def)
  qed
  have known: "snd (mcp_call_tool w e n args) \<noteq> ProtocolError MethodNotFound"
    if "n \<in> set (map tool_name mcp_server)"
  proof -
    have "find_tool mcp_server n \<noteq> None"
      using that by (auto simp add: find_tool_def find_None_iff)
    then obtain t where "find_tool mcp_server n = Some t"
      by blast
    then show ?thesis
      by (simp add: mcp_call_tool_def registered_not_method_not_found)
  qed
  have c7: "sse_call_tool Context7 w e n args =
        ([], Result \<lparr>content = [TextContent (JStr (''Error: Unknown tool: '' @ n))],
                     structuredContent = None, isError = True\<rparr>)"
    if "envelope_ok args" and "\<not> js_not (CONTEXT7_API_KEY e)"
      and "n \<noteq> ''mcp__context7__resolve-library-id''"
      and "n \<noteq> ''mcp__context7__get-library-docs''"
    using that by (simp add: sse_call_tool_def sse_defs catch_block_def)
  have pplx: "sse_call_tool Perplexity w e n args =
        ([], Result \<lparr>content = [TextContent (JStr (''Error: Unknown tool: '' @ n))],
                     structuredContent = None, isError = True\<rparr>)"
    if ok: "envelope_ok args" and k: "\<not> js_not (PERPLEXITY_API_KEY e)"
      and a: "n \<notin> set (map fst modelMap)"
      and b: "n \<noteq> ''__proto__''" and c: "n \<notin> set object_prototype_functions"
    using ok k modelMap_get_unknown [OF a b c] by (simp add: sse_call_tool_def sse_defs catch_block_def)
  have bd: "sse_call_tool BrightData w e n args =
        ([], Result (text_result
           (JStr (''BrightData tool '' @ n @ '' would be called with: '' @ stringify_in_template w args))))"
    if "envelope_ok args" and "\<not> js_not (BRIGHTDATA_API_TOKEN e)"
    using that by (simp add: sse_call_tool_def sse_defs)
  show ?thesis using unknown known c7 pplx bd by blast
qed

theorem unknown_tool_handling_witness:
  "''sonar'' \<notin> set (map tool_name mcp_server) \<and>
   mcp_call_tool (answering JNull) configured ''sonar'' (JObj [(''query'', JStr ''hi'')]) =
     ([], ProtocolError MethodNotFound) \<and>
   ''perplexity_search'' \<in> set (map tool_name mcp_server) \<and>
   snd (mcp_call_tool (answering JNull) configured ''perplexity_search'' JUndefined) \<noteq>
     ProtocolError MethodNotFound \<and>
   envelope_ok JUndefined \<and>
   \<not> js_not (CONTEXT7_API_KEY configured) \<and>
   sse_call_tool Context7 (answering JNull) configured ''perplexity_search'' JUndefined =
     ([], Result \<lparr>content = [TextContent (JStr ''Error: Unknown tool: perplexity_search'')],
                  structuredContent = None, isError = True\<rparr>) \<and>
   \<not> js_not (PERPLEXITY_API_KEY configured) \<and>
   ''sonar'' \<notin> set (map fst modelMap) \<and> ''sonar'' \<notin> set object_prototype_functions \<and>
   sse_call_tool Perplexity (answering JNull) configured ''sonar'' JUndefined =
     ([], Result \<lparr>content = [TextContent (JStr ''Error: Unknown tool: sonar'')],
                  structuredContent = None, isError = True\<rparr>) \<and>
   \<not> js_not (BRIGHTDATA_API_TOKEN configured) \<and>
   sse_call_tool BrightData (answering JNull) configured ''sonar'' JUndefined =
     ([], Result (text_result (JStr ''BrightData tool sonar would be called with: undefined'')))"
proof -
  have names: "''sonar'' \<notin> set (map tool_name mcp_server)"
    "''perplexity_search'' \<in> set (map tool_name mcp_server)"
    by (simp_all add: server_defs)
  have keys: "\<not> js_not (CONTEXT7_API_KEY configured)" "\<not> js_not (PERPLEXITY_API_KEY configured)"
    "\<not> js_not (BRIGHTDATA_API_TOKEN configured)"
    by (simp_all add: configured_def js_not_def)
  have other: "''sonar'' \<notin> set (map fst modelMap)" "''sonar'' \<notin> set object_prototype_functions"
    by (simp_all add: modelMap_def object_prototype_functions_def)
  show ?thesis
    using names keys other
      unknown_tool_handling [where n = "''sonar''" and w = "answering JNull" and e = configured
        and args = "JObj [(''query'', JStr ''hi'')]"]
      unknown_tool_handling [where n = "''sonar''" and w = "answering JNull" and e = configured
        and args = JUndefined]
      unknown_tool_handling [where n = "''perplexity_search''" and w = "answering JNull"
        and e = configured and args = JUndefined]
    by (simp add: stringify_in_template_def)
qed

section \<open>The batch bound\<close>

lemma scrape_batch_tool:
  "find_tool mcp_server ''mcp__brightdata__scrape_batch'' =
     Some \<lparr>tool_name = ''mcp__brightdata__scrape_batch'',
           config = \<lparr>title = ''BrightData Batch Scrape'',
                     description = ''Scrape multiple URLs'',
                     inputSchema = [(''urls'', ZMax (ZArray (ZUrl ZString)) 10)],
                     outputSchema = [(''results'', ZArray ZAny)]\<rparr>,
           cb = ScrapeBatchCb\<rparr>"
  by (simp add: find_tool_def server_defs)

lemma those_as_string: "those (map (as_string \<circ> JStr) urls) = Some urls"
  by (induction urls) simp_all

lemma field_array:
  "field args k = JArr xs \<Longrightarrow> \<exists>kvs. args = JObj kvs \<and> map_of kvs k = Some (JArr xs)"
  by (cases args) (auto simp add: field_def split: option.splits)

text \<open>
  C4. An invocation of \<open>mcp__brightdata__scrape_batch\<close> whose \<open>urls\<close> array has 11
  or more elements is answered with the "invalid params" protocol error: nothing
  happened, no adapter was invoked and no upstream request issued. With exactly
  10 elements, all of them strings in URL format, validation passes: the adapter
  is invoked and the answer is what the callback returns (or the "is error"
  result for what it throws).
\<close>

theorem scrape_batch_bound:
  "(field args ''urls'' = JArr xs \<and> 11 \<le> length xs \<longrightarrow>
      mcp_call_tool w e ''mcp__brightdata__scrape_batch'' args =
        ([], ProtocolError InvalidParams)) \<and>
   (field args ''urls'' = JArr (map JStr urls) \<and> length urls = 10 \<and> list_all (valid_url w) urls \<longrightarrow>
      mcp_call_tool w e ''mcp__brightdata__scrape_batch'' args =
        (AdapterInvoked ''mcp__brightdata__scrape_batch'' #
           map UpstreamRequest (fst (scrape_batch_callback w e urls)),
         case snd (scrape_batch_callback w e urls) of
           Inl err \<Rightarrow> Result (failure_marker err)
         | Inr r \<Rightarrow> Result r))"
proof -
  have too_many: "mcp_call_tool w e ''mcp__brightdata__scrape_batch'' args =
        ([], ProtocolError InvalidParams)"
    if a: "field args ''urls'' = JArr xs" and n: "11 \<le> length xs"
  proof -
    obtain kvs where "args = JObj kvs" and "map_of kvs ''urls'' = Some (JArr xs)"
      using field_array [OF a] by blast
    then show ?thesis
      using n
      by (simp add: mcp_call_tool_def scrape_batch_tool call_registered_def validate_def
          invalid_params_def)
  qed
  have ten: "mcp_call_tool w e ''mcp__brightdata__scrape_batch'' args =
        (AdapterInvoked ''mcp__brightdata__scrape_batch'' #
           map UpstreamRequest (fst (scrape_batch_callback w e urls)),
         case snd (scrape_batch_callback w e urls) of
           Inl err \<Rightarrow> Result (failure_marker err)
         | Inr r \<Rightarrow> Result r)"
    if f: "field args ''urls'' = JArr (map JStr urls)" and n: "length urls = 10"
      and u: "list_all (valid_url w) urls"
  proof -
    obtain kvs where "args = JObj kvs" and "map_of kvs ''urls'' = Some (JArr (map JStr urls))"
      using field_array [OF f] by blast
    then show ?thesis
      using n u f
      by (auto simp add: mcp_call_tool_def scrape_batch_tool call_registered_def validate_def
          those_as_string list_all_iff scrape_batch_callback_def check_output_def success_def)
  qed
  show ?thesis using too_many ten by blast
qed

theorem scrape_batch_bound_witness:
  "field (JObj [(''urls'', JArr (replicate 11 (JStr ''https://example.com'')))]) ''urls'' =
     JArr (replicate 11 (JStr ''https://example.com'')) \<and>
   11 \<le> length (replicate 11 (JStr ''https://example.com'')) \<and>
   mcp_call_tool offline configured ''mcp__brightdata__scrape_batch''
     (JObj [(''urls'', JArr (replicate 11 (JStr ''https://example.com'')))]) =
     ([], ProtocolError InvalidParams) \<and>
   field (JObj [(''urls'', JArr (map JStr (replicate 10 ''https://example.com'')))]) ''urls'' =
     JArr (map JStr (replicate 10 ''https://example.com'')) \<and>
   length (replicate 10 ''https://example.com'') = 10 \<and>
   list_all (valid_url offline) (replicate 10 ''https://example.com'') \<and>
   mcp_call_tool offline configured ''mcp__brightdata__scrape_batch''
     (JObj [(''urls'', JArr (map JStr (replicate 10 ''https://example.com'')))]) =
     ([AdapterInvoked ''mcp__brightdata__scrape_batch''],
      Result (success offline 0
             (JObj [(''results'',
                JArr (replicate 10
                  (JObj [(''url'', JStr ''https://example.com''), (''status'', JStr ''scraped'')])))])))"
  using scrape_batch_bound
      [of "JObj [(''urls'', JArr (replicate 11 (JStr ''https://example.com'')))]"
          "replicate 11 (JStr ''https://example.com'')" offline configured "[]"]
    scrape_batch_bound
      [of "JObj [(''urls'', JArr (map JStr (replicate 10 ''https://example.com'')))]"
          "[]" offline configured "replicate 10 ''https://example.com''"]
  by (simp add: field_def offline_def configured_def js_not_def scrape_batch_callback_def
      list_all_iff)

section \<open>The registry\<close>

text \<open>
  C5. The server built for any request holds exactly 10 tools with pairwise
  distinct names: 2 documentation tools, 4 research tools and 4 web-data tools,
  each tool in one group. Every description, input schema and output schema is
  non-empty, and the server built is the same for every request and every
  environment, which is what a "list tools" query enumerates.
\<close>

theorem registry_contents:
  "map tool_name (server_for_request e body) =
     [''mcp__context7__resolve-library-id'', ''mcp__context7__get-library-docs'',
      ''perplexity_search'', ''perplexity_ask'', ''perplexity_research'', ''perplexity_reason'',
      ''mcp__brightdata__search_engine'', ''mcp__brightdata__scrape_as_markdown'',
      ''mcp__brightdata__scrape_batch'', ''mcp__brightdata__search_engine_batch''] \<and>
   length (server_for_request e body) = 10 \<and>
   distinct (map tool_name (server_for_request e body)) \<and>
   map tool_name (filter (\<lambda>t. group_of (cb t) = Context7) (server_for_request e body)) =
     [''mcp__context7__resolve-library-id'', ''mcp__context7__get-library-docs''] \<and>
   map tool_name (filter (\<lambda>t. group_of (cb t) = Perplexity) (server_for_request e body)) =
     [''perplexity_search'', ''perplexity_ask'', ''perplexity_research'', ''perplexity_reason''] \<and>
   map tool_name (filter (\<lambda>t. group_of (cb t) = BrightData) (server_for_request e body)) =
     [''mcp__brightdata__search_engine'', ''mcp__brightdata__scrape_as_markdown'',
      ''mcp__brightdata__scrape_batch'', ''mcp__brightdata__search_engine_batch''] \<and>
   map tool_name (filter (\<lambda>t. group_of (cb t) = Context7) (server_for_request e body)) @
   map tool_name (filter (\<lambda>t. group_of (cb t) = Perplexity) (server_for_request e body)) @
   map tool_name (filter (\<lambda>t. group_of (cb t) = BrightData) (server_for_request e body)) =
     map tool_name (server_for_request e body) \<and>
   [] \<notin> set (map (\<lambda>t. description (config t)) (server_for_request e body)) \<and>
   [] \<notin> set (map (\<lambda>t. inputSchema (config t)) (server_for_request e body)) \<and>
   [] \<notin> set (map (\<lambda>t. outputSchema (config t)) (server_for_request e body)) \<and>
   server_for_request e body = server_for_request e' body'"
  by (simp add: server_for_request_def server_defs perplexity_config_def)

section \<open>Model selection\<close>

lemma perplexity_requests:
  "\<not> js_not (PERPLEXITY_API_KEY e) \<Longrightarrow>
     fst (perplexity_callback model w e query) =
       [perplexity_request (PERPLEXITY_API_KEY e) (JStr model) (JStr query)]"
  by (simp add: perplexity_callback_def Let_def split: sum.splits)

lemma model_sent_request: "model_sent (perplexity_request k m q) = m"
  by (simp add: model_sent_def perplexity_request_def field_def)

lemma modelMap_truthy: "map_of modelMap n = Some model \<Longrightarrow> model \<noteq> []"
  by (auto simp add: modelMap_def split: if_splits)

lemma sse_perplexity_requests:
  "\<not> js_not (PERPLEXITY_API_KEY e) \<Longrightarrow> map_of modelMap n = Some model \<Longrightarrow>
     fst (perplexity_call_tool w e n args) =
       (case get_prop args ''query'' of
          Inl err \<Rightarrow> []
        | Inr query \<Rightarrow> [perplexity_request (PERPLEXITY_API_KEY e) (JStr model) query])"
  by (simp add: perplexity_call_tool_def perplexity_try_def try_catch_def modelMap_get_def Let_def
      modelMap_truthy split: sum.splits)

text \<open>
  C6. The model identifier of the outbound research request is the value of
  the fixed table (\<open>perplexityModels\<close> on the unified route, the equal
  \<open>modelMap\<close> in server.ts) at the tool name, whatever the query, the
  credential's value, the other variables and the upstream: on the unified
  route the callback registered under the name carries that model and sends it
  in its one request; in server.ts every request the handler issues carries it,
  and exactly one is issued when the arguments are an object.
\<close>

theorem static_model_mapping:
  "map_of perplexityModels n = Some model \<Longrightarrow> \<not> js_not (PERPLEXITY_API_KEY e) \<Longrightarrow>
     perplexityModels =
       [(''perplexity_search'', ''sonar''), (''perplexity_ask'', ''sonar-pro''),
        (''perplexity_research'', ''sonar-deep-research''),
        (''perplexity_reason'', ''sonar-reasoning-pro'')] \<and>
     modelMap = perplexityModels \<and>
     map_option cb (find_tool mcp_server n) = Some (PerplexityCb model) \<and>
     map model_sent (fst (run w e (PerplexityQuery model query))) = [JStr model] \<and>
     map model_sent (fst (perplexity_call_tool w e n (JObj kvs))) = [JStr model] \<and>
     set (map model_sent (fst (perplexity_call_tool w e n args))) \<subseteq> {JStr model}"
proof -
  assume m: "map_of perplexityModels n = Some model" and k: "\<not> js_not (PERPLEXITY_API_KEY e)"
  have m': "map_of modelMap n = Some model"
    using m by (simp add: modelMap_def perplexityModels_def)
  have reg: "map_option cb (find_tool mcp_server n) = Some (PerplexityCb model)"
    using m by (auto simp add: find_tool_def server_defs perplexity_config_def split: if_splits)
  have unified: "map model_sent (fst (run w e (PerplexityQuery model query))) = [JStr model]"
    using k by (simp add: perplexity_requests model_sent_request)
  have sse: "map model_sent (fst (perplexity_call_tool w e n (JObj kvs))) = [JStr model]"
    using k m' by (simp add: sse_perplexity_requests model_sent_request)
  have sse_all: "set (map model_sent (fst (perplexity_call_tool w e n args))) \<subseteq> {JStr model}"
    using k m' by (auto simp add: sse_perplexity_requests model_sent_request split: sum.splits)
  show ?thesis
    using reg unified sse sse_all
    by (simp add: perplexityModels_def modelMap_def)
qed

theorem static_model_mapping_witness:
  "map_of perplexityModels ''perplexity_research'' = Some ''sonar-deep-research'' \<and>
   \<not> js_not (PERPLEXITY_API_KEY configured) \<and>
   map_option cb (find_tool mcp_server ''perplexity_research'') =
     Some (PerplexityCb ''sonar-deep-research'') \<and>
   map model_sent (fst (run offline configured (PerplexityQuery ''sonar-deep-research'' ''why?''))) =
     [JStr ''sonar-deep-research''] \<and>
   map model_sent
     (fst (perplexity_call_tool offline configured ''perplexity_research'' (JObj [(''query'', JStr ''why?'')]))) =
     [JStr ''sonar-deep-research'']"
proof -
  have m: "map_of perplexityModels ''perplexity_research'' = Some ''sonar-deep-research''"
    by (simp add: perplexityModels_def)
  have k: "\<not> js_not (PERPLEXITY_API_KEY configured)"
    by (simp add: configured_def js_not_def)
  show ?thesis
    using m k static_model_mapping [OF m k, of offline "''why?''" "[(''query'', JStr ''why?'')]" JUndefined]
    by blast
qed

section \<open>Defaults\<close>

lemma search_engine_tool:
  "find_tool mcp_server ''mcp__brightdata__search_engine'' =
     Some \<lparr>tool_name = ''mcp__brightdata__search_engine'',
           config = \<lparr>title = ''BrightData Search Engine'',
                     description = ''Search engine SERP results (Google/Bing/Yandex)'',
                     inputSchema = [(''query'', ZString), (''engine'', ZOptional (ZEnum engines))],
                     outputSchema = [(''results'', ZArray ZAny)]\<rparr>,
           cb = SearchEngineCb\<rparr>"
  by (simp add: find_tool_def server_defs)

lemma search_engine_omitted:
  "map_of kvs ''engine'' = None \<Longrightarrow>
     adapter_call w ''mcp__brightdata__search_engine'' (JObj kvs) =
       (case map_of kvs ''query'' of
          Some (JStr query) \<Rightarrow> Some (SearchEngine query None)
        | _ \<Rightarrow> None)"
  by (simp add: adapter_call_def search_engine_tool validate_def field_def
      split: option.splits jsval.splits)

lemma search_engine_google:
  "adapter_call w ''mcp__brightdata__search_engine'' (JObj ((''engine'', JStr ''google'') # kvs)) =
     (case map_of kvs ''query'' of
        Some (JStr query) \<Rightarrow> Some (SearchEngine query (Some Google))
      | _ \<Rightarrow> None)"
  by (simp add: adapter_call_def search_engine_tool validate_def field_def engines_def
      split: option.splits jsval.splits)

lemma mcp_call_tool_adapter_call:
  "find_tool mcp_server n = Some t \<Longrightarrow>
     mcp_call_tool w e n args =
       (case adapter_call w n args of
          None \<Rightarrow> invalid_params
        | Some c \<Rightarrow>
            (AdapterInvoked n # map UpstreamRequest (fst (run w e c)),
             case snd (run w e c) of
               Inl err \<Rightarrow> Result (failure_marker err)
             | Inr r \<Rightarrow> check_output w t r))"
  by (cases "run w e (the (validate w t args))")
     (auto simp add: mcp_call_tool_def adapter_call_def call_registered_def find_tool_name
        split: option.splits sum.splits)

text \<open>
  C7, as stated, fails in its first half: the schema declares \<open>engine\<close> optional
  and gives it no default, so for a request without \<open>engine\<close> the adapter is
  handed \<open>undefined\<close>, and for a request with \<open>engine = 'google'\<close> it is handed
  \<open>'google'\<close>.
\<close>

theorem default_engine_counterexample:
  "adapter_call offline ''mcp__brightdata__search_engine'' (JObj [(''query'', JStr ''cats'')]) =
     Some (SearchEngine ''cats'' None) \<and>
   adapter_call offline ''mcp__brightdata__search_engine''
     (JObj [(''engine'', JStr ''google''), (''query'', JStr ''cats'')]) =
     Some (SearchEngine ''cats'' (Some Google)) \<and>
   SearchEngine ''cats'' None \<noteq> SearchEngine ''cats'' (Some Google)"
  by (simp add: search_engine_omitted search_engine_google)

text \<open>
  C7, amended. For every invocation of \<open>mcp__brightdata__search_engine\<close>, a
  request that omits \<open>engine\<close> and the same request with \<open>engine = 'google'\<close> are
  answered alike: same events, same response. The adapter is handed \<open>undefined\<close>
  in the first case and \<open>'google'\<close> in the second, and its body replaces a missing
  engine by \<open>'google'\<close> (\<open>engine || 'google'\<close>), so with the credential set both
  return the result for \<open>google\<close>.
\<close>

theorem default_engine:
  "(map_of kvs ''engine'' = None \<longrightarrow>
      mcp_call_tool w e ''mcp__brightdata__search_engine'' (JObj kvs) =
      mcp_call_tool w e ''mcp__brightdata__search_engine'' (JObj ((''engine'', JStr ''google'') # kvs))) \<and>
   (map_of kvs ''engine'' = None \<and> map_of kvs ''query'' = Some (JStr query) \<longrightarrow>
      adapter_call w ''mcp__brightdata__search_engine'' (JObj kvs) = Some (SearchEngine query None) \<and>
      adapter_call w ''mcp__brightdata__search_engine'' (JObj ((''engine'', JStr ''google'') # kvs)) =
        Some (SearchEngine query (Some Google))) \<and>
   search_engine_callback w e query None = search_engine_callback w e query (Some Google) \<and>
   (\<not> js_not (BRIGHTDATA_API_TOKEN e) \<longrightarrow>
      search_engine_callback w e query None =
        ([], Inr (success w 0 (JObj [(''results'', JArr [JStr (''Searched google for: '' @ query)])]))))"
proof -
  have same_run: "run w e (SearchEngine q None) = run w e (SearchEngine q (Some Google))" for q
    by (simp add: search_engine_callback_def engine_or_google_def)
  have same: "mcp_call_tool w e ''mcp__brightdata__search_engine'' (JObj kvs) =
      mcp_call_tool w e ''mcp__brightdata__search_engine'' (JObj ((''engine'', JStr ''google'') # kvs))"
    if "map_of kvs ''engine'' = None"
    using same_run
    by (simp add: mcp_call_tool_adapter_call [OF search_engine_tool] search_engine_omitted [OF that]
        search_engine_google split: option.splits jsval.splits)
  have handed: "adapter_call w ''mcp__brightdata__search_engine'' (JObj kvs) = Some (SearchEngine query None) \<and>
      adapter_call w ''mcp__brightdata__search_engine'' (JObj ((''engine'', JStr ''google'') # kvs)) =
        Some (SearchEngine query (Some Google))"
    if a: "map_of kvs ''engine'' = None" and b: "map_of kvs ''query'' = Some (JStr query)"
    using b by (simp add: search_engine_omitted [OF a] search_engine_google)
  have body: "search_engine_callback w e query None = search_engine_callback w e query (Some Google)"
    by (simp add: search_engine_callback_def engine_or_google_def)
  have google: "search_engine_callback w e query None =
        ([], Inr (success w 0 (JObj [(''results'', JArr [JStr (''Searched google for: '' @ query)])])))"
    if "\<not> js_not (BRIGHTDATA_API_TOKEN e)"
    using that by (simp add: search_engine_callback_def engine_or_google_def)
  show ?thesis using same handed body google by blast
qed

theorem default_engine_witness:
  "map_of [(''query'', JStr ''cats'')] ''engine'' = None \<and>
   map_of [(''query'', JStr ''cats'')] ''query'' = Some (JStr ''cats'') \<and>
   \<not> js_not (BRIGHTDATA_API_TOKEN configured) \<and>
   mcp_call_tool offline configured ''mcp__brightdata__search_engine'' (JObj [(''query'', JStr ''cats'')]) =
     mcp_call_tool offline configured ''mcp__brightdata__search_engine''
       (JObj [(''engine'', JStr ''google''), (''query'', JStr ''cats'')]) \<and>
   adapter_call offline ''mcp__brightdata__search_engine'' (JObj [(''query'', JStr ''cats'')]) =
     Some (SearchEngine ''cats'' None) \<and>
   search_engine_callback offline configured ''cats'' None =
     ([], Inr (success offline 0 (JObj [(''results'', JArr [JStr ''Searched google for: cats''])])))"
proof -
  have a: "map_of [(''query'', JStr ''cats'')] ''engine'' = None"
    and b: "map_of [(''query'', JStr ''cats'')] ''query'' = Some (JStr ''cats'')"
    by simp_all
  have k: "\<not> js_not (BRIGHTDATA_API_TOKEN configured)"
    by (simp add: configured_def js_not_def)
  note th = default_engine [where kvs = "[(''query'', JStr ''cats'')]" and w = offline
      and e = configured and query = "''cats''"]
  have same: "mcp_call_tool offline configured ''mcp__brightdata__search_engine''
        (JObj [(''query'', JStr ''cats'')]) =
      mcp_call_tool offline configured ''mcp__brightdata__search_engine''
        (JObj [(''engine'', JStr ''google''), (''query'', JStr ''cats'')])"
    using th a by blast
  have handed: "adapter_call offline ''mcp__brightdata__search_engine''
        (JObj [(''query'', JStr ''cats'')]) = Some (SearchEngine ''cats'' None)"
    using th a b by blast
  have google: "search_engine_callback offline configured ''cats'' None =
      ([], Inr (success offline 0
         (JObj [(''results'', JArr [JStr (''Searched google for: '' @ ''cats'')])])))"
    using th k by blast
  show ?thesis
    using a b k same handed google by simp
qed

lemma docs_requests:
  "\<not> js_not (CONTEXT7_API_KEY e) \<Longrightarrow>
     fst (get_library_docs_callback w e libraryID topic tokens) =
       [\<lparr>req_url = ''https://context7.upstash.io/api/v1/docs'',
         req_data = JObj [(''libraryId'', JStr libraryID),
                          (''topic'', opt_str topic),
                          (''maxTokens'', js_or (opt_num tokens) (JNum 5000))],
         req_headers = bearer (CONTEXT7_API_KEY e)\<rparr>]"
  by (simp add: get_library_docs_callback_def Let_def split: sum.splits)

text \<open>
  C10. With the credential set, \<open>mcp__context7__get-library-docs\<close> issues one
  request; its \<open>maxTokens\<close> is 5000 when \<open>tokens\<close> is omitted and also when it is
  0, and it is never 0.
\<close>

theorem default_token_budget:
  "\<not> js_not (CONTEXT7_API_KEY e) \<Longrightarrow>
     (tokens = None \<or> tokens = Some 0 \<longrightarrow>
        map maxTokens_sent (fst (get_library_docs_callback w e libraryID topic tokens)) = [JNum 5000]) \<and>
     length (fst (get_library_docs_callback w e libraryID topic tokens)) = 1 \<and>
     JNum 0 \<notin> set (map maxTokens_sent (fst (get_library_docs_callback w e libraryID topic tokens)))"
  by (auto simp add: docs_requests maxTokens_sent_def field_def js_or_def opt_num_def
      split: option.splits)

theorem default_token_budget_witness:
  "\<not> js_not (CONTEXT7_API_KEY configured) \<and>
   map maxTokens_sent
     (fst (get_library_docs_callback offline configured ''/vercel/next.js'' None (Some 0))) = [JNum 5000] \<and>
   map maxTokens_sent
     (fst (get_library_docs_callback offline configured ''/vercel/next.js'' None None)) = [JNum 5000]"
  using default_token_budget [of configured "Some 0" offline "''/vercel/next.js''" None]
    default_token_budget [of configured None offline "''/vercel/next.js''" None]
  by (simp add: configured_def js_not_def)

section \<open>Successful results\<close>







text \<open>
  When the documentation upstream answers the search with a JSON object, the
  callback returns an object that the declared schema \<open>libraries:
  z.array(z.any())\<close> does not accept, and the invocation is not answered as a
  success.
\<close>

lemma nonconforming_output_rejected:
  "snd (run (answering (JObj [(''results'', JArr [])])) configured (ResolveLibraryId ''react'')) =
     Inr (success (answering (JObj [(''results'', JArr [])])) 2
            (JObj [(''libraries'', JObj [(''results'', JArr [])])])) \<and>
   snd (mcp_call_tool (answering (JObj [(''results'', JArr [])])) configured
          ''mcp__context7__resolve-library-id'' (JObj [(''libraryName'', JStr ''react'')])) =
     ProtocolError InvalidParams"
  by (simp add: resolve_library_id_callback_def configured_def js_not_def answering_def
      mcp_call_tool_def find_tool_def server_defs call_registered_def validate_def field_def
      check_output_def success_def offline_def)



section \<open>Credential isolation\<close>

text \<open>
  C9. The outcome of a call (requests issued, result or error) depends on the
  environment only through the credential of the call's own provider group:
  two environments that agree on it give the same outcome, so unsetting another
  group's credential changes nothing for this call.
\<close>

theorem own_credential_only:
  "(credential e1 (provider_of c) = credential e2 (provider_of c) \<longrightarrow> run w e1 c = run w e2 c) \<and>
   (q \<noteq> provider_of c \<longrightarrow> run w (clear_credential e1 q) c = run w e1 c)"
  by (cases c; cases q) (simp_all add: callback_defs)

theorem own_credential_only_witness:
  "credential configured (provider_of (SearchEngine ''cats'' None)) =
     credential (clear_credential configured Perplexity) (provider_of (SearchEngine ''cats'' None)) \<and>
   Perplexity \<noteq> provider_of (SearchEngine ''cats'' None) \<and>
   run offline (clear_credential configured Perplexity) (SearchEngine ''cats'' None) =
     run offline configured (SearchEngine ''cats'' None) \<and>
   run offline configured (SearchEngine ''cats'' None) =
     ([], Inr (success offline 0 (JObj [(''results'', JArr [JStr ''Searched google for: cats''])])))"
  using own_credential_only
    [of configured "SearchEngine ''cats'' None" "clear_credential configured Perplexity" offline Perplexity]
  by (simp add: configured_def search_engine_callback_def js_not_def engine_or_google_def)

end
